theory Spec2Isabelle
  imports Main "HOL-Library.Sublist" "HOL-Library.AList"
begin

section \<open>JavaScript values\<close>

text \<open>
  The server handles values of type \<open>any\<close>: the parsed request body, the messages a
  protocol server emits, whatever a \<open>catch\<close> clause receives. They are modelled by one
  datatype. \<open>Err m\<close> is an \<open>Error\<close> object whose \<open>message\<close> is \<open>m\<close>. An object is
  the list of its own properties in insertion order. Strings are lists of 8-bit
  characters, read as the code units U+0000 to U+00FF; numbers are integers.
\<close>

datatype jsval =
    Undefined
  | Null
  | Bool bool
  | Num int
  | Str string
  | Arr "jsval list"
  | Obj "(string \<times> jsval) list"
  | Err string

text \<open>\<open>!v\<close> of JavaScript.\<close>

fun falsy :: "jsval \<Rightarrow> bool" where
  "falsy Undefined = True"
| "falsy Null = True"
| "falsy (Bool b) = (\<not> b)"
| "falsy (Num n) = (n = 0)"
| "falsy (Str s) = (s = [])"
| "falsy (Arr xs) = False"
| "falsy (Obj ps) = False"
| "falsy (Err m) = False"

text \<open>
  \<open>!s\<close> for a value typed \<open>string | undefined\<close> (a header, a query parameter, an
  optional configuration entry): absent or empty.
\<close>

definition absent :: "string option \<Rightarrow> bool" where
  "absent h = (case h of None \<Rightarrow> True | Some s \<Rightarrow> s = [])"

text \<open>
  \<open>v.k\<close> for the property names the source reads (\<open>method\<close>, \<open>id\<close>, \<open>message\<close>,
  \<open>organization\<close>), none of which a built-in prototype provides: reading a property
  of \<open>undefined\<close> or \<open>null\<close> throws a TypeError, an object yields its own property or
  \<open>undefined\<close>, any other value yields \<open>undefined\<close>.
\<close>

definition type_error :: "string \<Rightarrow> jsval" where
  "type_error what = Err (''TypeError: '' @ what)"

fun member :: "jsval \<Rightarrow> string \<Rightarrow> jsval + jsval" where
  "member Undefined k = Inl (type_error (''Cannot read properties of undefined (reading '' @ k @ '')''))"
| "member Null k = Inl (type_error (''Cannot read properties of null (reading '' @ k @ '')''))"
| "member (Obj ps) k = Inr (case map_of ps k of None \<Rightarrow> Undefined | Some v \<Rightarrow> v)"
| "member (Err m) k = Inr (if k = ''message'' then Str m else Undefined)"
| "member v k = Inr Undefined"

text \<open>
  \<open>m?.startsWith(p)\<close>: \<open>undefined\<close> (falsy) on \<open>undefined\<close> and \<open>null\<close>, the prefix
  test on a string, a TypeError on anything else, which has no such method.
\<close>

fun opt_startsWith :: "jsval \<Rightarrow> string \<Rightarrow> jsval + bool" where
  "opt_startsWith Undefined p = Inr False"
| "opt_startsWith Null p = Inr False"
| "opt_startsWith (Str s) p = Inr (prefix p s)"
| "opt_startsWith v p = Inl (type_error ''method?.startsWith is not a function'')"

text \<open>\<open>Object.keys(v).length\<close> for a value that is neither \<open>undefined\<close> nor \<open>null\<close>.\<close>

fun keys_length :: "jsval \<Rightarrow> nat" where
  "keys_length (Obj ps) = length ps"
| "keys_length (Arr xs) = length xs"
| "keys_length (Str s) = length s"
| "keys_length v = 0"

subsection \<open>Text of a value\<close>

definition digit_char :: "nat \<Rightarrow> char" where
  "digit_char d = char_of (48 + d)"

fun digits_of :: "nat \<Rightarrow> string" where
  "digits_of n = (if n < 10 then [digit_char n] else digits_of (n div 10) @ [digit_char (n mod 10)])"

declare digits_of.simps [simp del]

definition show_int :: "int \<Rightarrow> string" where
  "show_int i = (if i < 0 then CHR ''-'' # digits_of (nat (- i)) else digits_of (nat i))"

fun join_with :: "string \<Rightarrow> string list \<Rightarrow> string" where
  "join_with sep [] = []"
| "join_with sep [x] = x"
| "join_with sep (x # y # ys) = x @ sep @ join_with sep (y # ys)"

text \<open>String conversion, as a template literal \<open>`${v}`\<close> performs it.\<close>

fun to_string :: "jsval \<Rightarrow> string"
  and to_string_elems :: "jsval list \<Rightarrow> string list" where
  "to_string Undefined = ''undefined''"
| "to_string Null = ''null''"
| "to_string (Bool b) = (if b then ''true'' else ''false'')"
| "to_string (Num n) = show_int n"
| "to_string (Str s) = s"
| "to_string (Arr xs) = join_with '','' (to_string_elems xs)"
| "to_string (Obj ps) = ''[object Object]''"
| "to_string (Err m) = (if m = [] then ''Error'' else ''Error: '' @ m)"
| "to_string_elems [] = []"
| "to_string_elems (x # xs) =
     (if x = Undefined \<or> x = Null then [] else to_string x) # to_string_elems xs"

subsection \<open>\<open>JSON.stringify\<close>\<close>

definition hex_lower :: "nat \<Rightarrow> char" where
  "hex_lower d = (if d < 10 then char_of (48 + d) else char_of (87 + d))"

text \<open>QuoteJSONString, one code unit at a time.\<close>

definition quote_char :: "char \<Rightarrow> string" where
  "quote_char c =
     (if c = CHR 0x22 then [CHR 0x5C, CHR 0x22]
      else if c = CHR 0x5C then [CHR 0x5C, CHR 0x5C]
      else if c = CHR 0x08 then [CHR 0x5C, CHR ''b'']
      else if c = CHR 0x0C then [CHR 0x5C, CHR ''f'']
      else if c = CHR 0x0A then [CHR 0x5C, CHR ''n'']
      else if c = CHR 0x0D then [CHR 0x5C, CHR ''r'']
      else if c = CHR 0x09 then [CHR 0x5C, CHR ''t'']
      else if (of_char c :: nat) < 32
        then [CHR 0x5C, CHR ''u'', CHR ''0'', CHR ''0'',
              hex_lower (of_char c div 16), hex_lower (of_char c mod 16)]
      else [c])"

definition quote :: "string \<Rightarrow> string" where
  "quote s = CHR 0x22 # concat (map quote_char s) @ [CHR 0x22]"

text \<open>
  \<open>None\<close> is the result \<open>undefined\<close>. A property whose value is \<open>undefined\<close> is left
  out of an object, an \<open>undefined\<close> array element is written \<open>null\<close>, an \<open>Error\<close> has
  no enumerable property.
\<close>

fun JSON_stringify :: "jsval \<Rightarrow> string option"
  and stringify_elems :: "jsval list \<Rightarrow> string list"
  and stringify_props :: "(string \<times> jsval) list \<Rightarrow> string list" where
  "JSON_stringify Undefined = None"
| "JSON_stringify Null = Some ''null''"
| "JSON_stringify (Bool b) = Some (if b then ''true'' else ''false'')"
| "JSON_stringify (Num n) = Some (show_int n)"
| "JSON_stringify (Str s) = Some (quote s)"
| "JSON_stringify (Arr xs) = Some (''['' @ join_with '','' (stringify_elems xs) @ '']'')"
| "JSON_stringify (Obj ps) = Some (''{'' @ join_with '','' (stringify_props ps) @ ''}'')"
| "JSON_stringify (Err m) = Some ''{}''"
| "stringify_elems [] = []"
| "stringify_elems (x # xs) =
     (case JSON_stringify x of None \<Rightarrow> ''null'' | Some s \<Rightarrow> s) # stringify_elems xs"
| "stringify_props [] = []"
| "stringify_props (p # ps) =
     (case JSON_stringify (snd p) of
        None \<Rightarrow> stringify_props ps
      | Some s \<Rightarrow> (quote (fst p) @ '':'' @ s) # stringify_props ps)"

section \<open>The stream transport (\<open>HttpTransport\<close>)\<close>

text \<open>
  The transport owns the Express response of one connection. What it does to the
  response and which callbacks of the owning session it fires are recorded, in order,
  in \<open>effects\<close>. \<open>onclose\<close> and \<open>onerror\<close> say whether the session has installed the
  optional callback.
\<close>

datatype transport_effect =
    ResponseSetHeader string string
  | ResponseWrite string
  | ResponseEnd
  | OnCloseFired
  | OnErrorFired jsval

record HttpTransport =
  t_closed :: bool
  onclose :: bool
  onerror :: bool
  sessionId :: string
  effects :: "transport_effect list"

definition new_HttpTransport :: "string \<Rightarrow> HttpTransport" where
  "new_HttpTransport sid =
     \<lparr> t_closed = False, onclose = False, onerror = False, sessionId = sid,
       effects =
         [ ResponseSetHeader ''Content-Type'' ''text/event-stream'',
           ResponseSetHeader ''Cache-Control'' ''no-cache'',
           ResponseSetHeader ''Connection'' ''keep-alive'',
           ResponseSetHeader ''Access-Control-Allow-Origin'' ''*'',
           ResponseSetHeader ''Access-Control-Allow-Headers'' ''Content-Type, Authorization'',
           ResponseSetHeader ''Access-Control-Allow-Methods'' ''GET, POST, OPTIONS'' ] \<rparr>"

text \<open>
  \<open>send\<close>: \<open>write_throws chunk\<close> is the value \<open>response.write(chunk)\<close> throws, if it
  throws. The result is \<open>Inl\<close> of the error the returned promise rejects with.
\<close>

definition send ::
  "(string \<Rightarrow> jsval option) \<Rightarrow> HttpTransport \<Rightarrow> jsval \<Rightarrow> (jsval + unit) \<times> HttpTransport" where
  "send write_throws t message =
     (if t_closed t then (Inl (Err ''Transport is closed''), t)
      else
        let data = (case JSON_stringify message of None \<Rightarrow> ''undefined'' | Some s \<Rightarrow> s);
            chunk = ''data: '' @ data @ [CHR 0x0A, CHR 0x0A]
        in case write_throws chunk of
             None \<Rightarrow> (Inr (), t\<lparr>effects := effects t @ [ResponseWrite chunk]\<rparr>)
           | Some error \<Rightarrow>
               (Inl error,
                t\<lparr>effects := effects t @ [ResponseWrite chunk]
                     @ (if onerror t then [OnErrorFired error] else [])\<rparr>))"

text \<open>\<open>close\<close>: an error of \<open>response.end()\<close> is caught and ignored.\<close>

definition close :: "HttpTransport \<Rightarrow> HttpTransport" where
  "close t =
     (if t_closed t then t
      else t\<lparr>t_closed := True,
             effects := effects t @ [ResponseEnd] @ (if onclose t then [OnCloseFired] else [])\<rparr>)"

section \<open>Requests and responses\<close>

text \<open>
  The parts of an Express request the handlers read. \<open>body\<close> is \<open>req.body\<close> after the
  body parsers (\<open>Undefined\<close> when nothing was parsed); the \<open>query_\<close> fields are the
  decoded query parameters.
\<close>

record request =
  http_method :: string
  authorization :: "string option"
  x_ado_organization :: "string option"
  upgrade :: "string option"
  accept :: "string option"
  body :: jsval
  protocol :: string
  host :: "string option"
  query_organization :: "string option"
  query_redirect_uri :: "string option"
  query_code :: "string option"
  query_state :: "string option"

text \<open>
  What a handler sends: \<open>Json status v\<close> is \<open>res.status(status).json(v)\<close>,
  \<open>Empty status\<close> is \<open>res.status(status).end()\<close>, \<open>EventStream\<close> is a response left
  open under an \<open>HttpTransport\<close>.
\<close>

datatype http_response = Json nat jsval | Empty nat | EventStream

definition error_body :: "string \<Rightarrow> jsval" where
  "error_body msg = Obj [(''error'', Str msg)]"

section \<open>Authentication (\<open>auth.ts\<close>)\<close>

record AuthConfig =
  patEnabled :: bool
  oauthEnabled :: bool
  jwtSecret :: "string option"
  azureClientId :: "string option"
  azureClientSecret :: "string option"
  azureTenantId :: "string option"
  allowedOrigins :: "string list option"

datatype auth_type = PAT | OAuth

text \<open>The verified token's payload, at the type the source casts it to.\<close>

record jwt_claims =
  claim_organization :: "string option"
  claim_accessToken :: "string option"
  claim_sub :: "string option"

text \<open>\<open>req.auth\<close>, the caller identity.\<close>

record auth =
  auth_type :: auth_type
  token :: string
  organization :: string
  userId :: "string option"
  claims :: "jwt_claims option"

text \<open>
  The two collaborators of the validator: \<open>jwt_verify token secret\<close> is the payload
  \<open>jwt.verify\<close> returns, \<open>None\<close> when it throws; \<open>getProjects orgUrl token\<close> says
  whether the test call to the Azure DevOps API succeeds.
\<close>

record auth_env =
  jwt_verify :: "string \<Rightarrow> string \<Rightarrow> jwt_claims option"
  getProjects :: "string \<Rightarrow> string \<Rightarrow> bool"

text \<open>
  Every call that leaves the handler is recorded in order: the validator's calls, and
  what the protocol layer does once a request reaches it.
\<close>

datatype effect =
    JwtVerify string string
  | RemoteValidation string string
  | SessionCreated auth
  | StreamConnected
  | Delegated jsval

datatype middleware_result = Responded http_response | Next auth

text \<open>\<open>a || b\<close> on values typed \<open>string | undefined\<close>.\<close>

definition js_or :: "string option \<Rightarrow> string option \<Rightarrow> string option" where
  "js_or a b = (if absent a then b else a)"

text \<open>\<open>!authHeader || !authHeader.startsWith('Bearer ')\<close>\<close>

definition bad_header :: "string option \<Rightarrow> bool" where
  "bad_header authHeader =
     (case authHeader of None \<Rightarrow> True | Some h \<Rightarrow> h = [] \<or> \<not> prefix ''Bearer '' h)"

text \<open>
  \<open>validatePAT\<close>: any failure of the test call is caught and becomes \<open>false\<close>. So
  nothing throws inside the \<open>try\<close> of \<open>authenticateWithPAT\<close>, and its \<open>catch\<close>
  (401 \<open>Authentication failed\<close>) has no branch below.
\<close>

definition validatePAT :: "auth_env \<Rightarrow> string \<Rightarrow> string \<Rightarrow> effect list \<times> bool" where
  "validatePAT env tok org =
     (let orgUrl = ''https://dev.azure.com/'' @ org
      in ([RemoteValidation orgUrl tok], getProjects env orgUrl tok))"

definition authenticateWithPAT ::
  "AuthConfig \<Rightarrow> auth_env \<Rightarrow> request \<Rightarrow> effect list \<times> middleware_result" where
  "authenticateWithPAT config env req =
     (if \<not> patEnabled config
        then ([], Responded (Json 501 (error_body ''PAT authentication is not enabled'')))
      else if bad_header (authorization req)
        then ([], Responded (Json 401 (error_body
                ''Missing or invalid Authorization header. Expected: Bearer <PAT_TOKEN>'')))
      else
        let tok = drop 7 (the (authorization req));
            org = x_ado_organization req
        in if absent org
             then ([], Responded (Json 400 (error_body ''Missing x-ado-organization header'')))
           else
             let (calls, isValid) = validatePAT env tok (the org)
             in if \<not> isValid
                  then (calls, Responded (Json 401 (error_body ''Invalid Personal Access Token'')))
                else (calls, Next \<lparr> auth_type = PAT, token = tok, organization = the org,
                                    userId = None, claims = None \<rparr>))"

definition authenticateWithOAuth ::
  "AuthConfig \<Rightarrow> auth_env \<Rightarrow> request \<Rightarrow> effect list \<times> middleware_result" where
  "authenticateWithOAuth config env req =
     (if \<not> oauthEnabled config
        then ([], Responded (Json 501 (error_body ''OAuth authentication is not enabled'')))
      else if bad_header (authorization req)
        then ([], Responded (Json 401 (error_body
                ''Missing or invalid Authorization header. Expected: Bearer <JWT_TOKEN>'')))
      else
        let tok = drop 7 (the (authorization req))
        in if absent (jwtSecret config)
             then ([], Responded (Json 401 (error_body ''Invalid or expired token'')))
           else
             case jwt_verify env tok (the (jwtSecret config)) of
               None \<Rightarrow>
                 ([JwtVerify tok (the (jwtSecret config))],
                  Responded (Json 401 (error_body ''Invalid or expired token'')))
             | Some decoded \<Rightarrow>
                 let org = js_or (claim_organization decoded) (x_ado_organization req)
                 in if absent org
                      then ([JwtVerify tok (the (jwtSecret config))],
                            Responded (Json 400 (error_body
                              ''Organization not found in token or headers'')))
                    else
                      ([JwtVerify tok (the (jwtSecret config))],
                       Next \<lparr> auth_type = OAuth,
                              token = the (js_or (claim_accessToken decoded) (Some [])),
                              organization = the org,
                              userId = claim_sub decoded,
                              claims = Some decoded \<rparr>))"

text \<open>
  The generic entry point. A verification that throws is caught and the request goes on
  to the credential-token scheme, when that scheme is enabled.
\<close>

definition authenticate ::
  "AuthConfig \<Rightarrow> auth_env \<Rightarrow> request \<Rightarrow> effect list \<times> middleware_result" where
  "authenticate config env req =
     (if bad_header (authorization req)
        then ([], Responded (Json 401 (error_body ''Missing or invalid Authorization header'')))
      else
        let tok = drop 7 (the (authorization req));
            tried = (if oauthEnabled config \<and> \<not> absent (jwtSecret config)
                       then [JwtVerify tok (the (jwtSecret config))] else [])
        in if oauthEnabled config \<and> \<not> absent (jwtSecret config)
              \<and> jwt_verify env tok (the (jwtSecret config)) \<noteq> None
             then (let (calls, r) = authenticateWithOAuth config env req in (tried @ calls, r))
           else if patEnabled config
             then (let (calls, r) = authenticateWithPAT config env req in (tried @ calls, r))
           else (tried, Responded (Json 401 (error_body ''No valid authentication method found''))))"

section \<open>The protocol endpoint (\<open>http-server.ts\<close>)\<close>

text \<open>
  The protocol server of the SDK is a collaborator. For one session it is given by:
  the value \<open>server.connect\<close> rejects with (if it does), whether \<open>connect\<close> installs
  \<open>onmessage\<close> on the transport, the value that handler throws for a message (if it
  does), and the calls the server makes on the transport, in order, before a deadline
  of so many milliseconds, given the message delivered to it (if any).
\<close>

datatype transport_call = Send jsval | OnError string

record McpServer =
  connect_throws :: "jsval option"
  installs_onmessage :: bool
  onmessage_throws :: "jsval \<Rightarrow> jsval option"
  calls_before :: "jsval option \<Rightarrow> nat \<Rightarrow> transport_call list"

text \<open>
  The session's collaborators: the value constructing and configuring the server
  throws (if it does), the server, and the package version.
\<close>

record mcp_env =
  session_throws :: "jsval option"
  server :: McpServer
  packageVersion :: string

text \<open>
  The delegate transport: \<open>send\<close> pushes onto \<open>responseData\<close>, \<open>onerror\<close> pushes the
  \<open>Error\<close> onto \<open>errorData\<close>.
\<close>

fun deliver :: "transport_call \<Rightarrow> jsval list \<times> jsval list \<Rightarrow> jsval list \<times> jsval list" where
  "deliver (Send msg) (responseData, errorData) = (responseData @ [msg], errorData)"
| "deliver (OnError m) (responseData, errorData) = (responseData, errorData @ [Err m])"

definition getTimeoutForMethod :: "jsval \<Rightarrow> jsval + nat" where
  "getTimeoutForMethod method =
     (case opt_startsWith method ''tools/call'' of
        Inl e \<Rightarrow> Inl e
      | Inr True \<Rightarrow> Inr 5000
      | Inr False \<Rightarrow>
          (case opt_startsWith method ''tools/list'' of
             Inl e \<Rightarrow> Inl e
           | Inr True \<Rightarrow> Inr 2000
           | Inr False \<Rightarrow>
               (case opt_startsWith method ''prompts/list'' of
                  Inl e \<Rightarrow> Inl e
                | Inr True \<Rightarrow> Inr 2000
                | Inr False \<Rightarrow> if method = Str ''initialize'' then Inr 1000 else Inr 1000)))"

text \<open>The error envelope \<open>{jsonrpc: "2.0", id, error: {code, message, data?}}\<close>.\<close>

definition error_response :: "jsval \<Rightarrow> int \<Rightarrow> string \<Rightarrow> jsval option \<Rightarrow> jsval" where
  "error_response ident code msg data =
     Obj [(''jsonrpc'', Str ''2.0''), (''id'', ident),
          (''error'', Obj ([(''code'', Num code), (''message'', Str msg)]
                           @ (case data of None \<Rightarrow> [] | Some d \<Rightarrow> [(''data'', d)])))]"

text \<open>
  The \<open>try\<close> block of \<open>delegateToMcpServer\<close>: \<open>Inl\<close> is the value thrown into its
  \<open>catch\<close>, \<open>Inr\<close> the value the promise resolves with.
\<close>

definition delegate_try :: "McpServer \<Rightarrow> jsval \<Rightarrow> jsval \<Rightarrow> jsval \<Rightarrow> jsval + jsval" where
  "delegate_try srv message method ident =
     (case connect_throws srv of
        Some e \<Rightarrow> Inl e
      | None \<Rightarrow>
     (case (if installs_onmessage srv then onmessage_throws srv message else None) of
        Some e \<Rightarrow> Inl e
      | None \<Rightarrow>
     (case getTimeoutForMethod method of
        Inl e \<Rightarrow> Inl e
      | Inr timeout \<Rightarrow>
          let (responseData, errorData) =
                fold deliver
                  (calls_before srv (if installs_onmessage srv then Some message else None) timeout)
                  ([], [])
          in (case errorData of
                error # _ \<Rightarrow>
                  (case member error ''message'' of
                     Inl e \<Rightarrow> Inl e
                   | Inr d \<Rightarrow> Inr (error_response ident (- 32603) ''Server transport error'' (Some d)))
              | [] \<Rightarrow>
                  (case responseData of
                     msg # _ \<Rightarrow> Inr msg
                   | [] \<Rightarrow>
                       (case opt_startsWith method ''notifications/'' of
                          Inl e \<Rightarrow> Inl e
                        | Inr True \<Rightarrow> Inr Null
                        | Inr False \<Rightarrow>
                            Inr (error_response ident (- 32603)
                                   (''Server timeout: no response for '' @ to_string method)
                                   None)))))))"

text \<open>
  \<open>delegateToMcpServer\<close>: \<open>Inl\<close> is a rejected promise (only reading \<open>message.method\<close>
  of \<open>undefined\<close> or \<open>null\<close>, before the \<open>try\<close>, rejects); everything the \<open>try\<close> block
  throws resolves to an error response.
\<close>

definition delegateToMcpServer :: "McpServer \<Rightarrow> jsval \<Rightarrow> jsval + jsval" where
  "delegateToMcpServer srv message =
     (case member message ''method'' of
        Inl e \<Rightarrow> Inl e
      | Inr method \<Rightarrow>
     (case member message ''id'' of
        Inl e \<Rightarrow> Inl e
      | Inr ident \<Rightarrow>
          Inr (case delegate_try srv message method ident of
                 Inr resolved \<Rightarrow> resolved
               | Inl error \<Rightarrow>
                   error_response ident (- 32603) ''Failed to delegate to server'' (Some error))))"

text \<open>
  \<open>handleMcpConnection\<close>: the persistent stream. Nothing has been sent when the
  session or the connection fails, so the \<open>catch\<close> answers 500.
\<close>

definition handleMcpConnection :: "mcp_env \<Rightarrow> auth \<Rightarrow> request \<Rightarrow> effect list \<times> http_response" where
  "handleMcpConnection env a req =
     (case session_throws env of
        Some error \<Rightarrow> ([], Json 500 (error_body ''Failed to establish MCP connection''))
      | None \<Rightarrow>
          (case connect_throws (server env) of
             Some error \<Rightarrow>
               ([SessionCreated a], Json 500 (error_body ''Failed to establish MCP connection''))
           | None \<Rightarrow> ([SessionCreated a, StreamConnected], EventStream)))"

definition handshake :: "string \<Rightarrow> jsval" where
  "handshake version =
     Obj [(''jsonrpc'', Str ''2.0''), (''id'', Num 1),
          (''result'',
             Obj [(''protocolVersion'', Str ''2024-11-05''),
                  (''capabilities'',
                     Obj [(''tools'', Obj []), (''resources'', Obj []), (''prompts'', Obj [])]),
                  (''serverInfo'',
                     Obj [(''name'', Str ''Azure DevOps MCP Server''), (''version'', Str version)])])]"

definition shouldUpgradeToSSE :: "request \<Rightarrow> bool" where
  "shouldUpgradeToSSE req =
     (if http_method req = ''POST'' then upgrade req = Some ''sse''
      else sublist ''text/event-stream'' (the (js_or (accept req) (Some [])))
           \<or> upgrade req = Some ''sse'')"

text \<open>
  \<open>handleMcpRequest\<close>: the single-shot endpoint. The session is constructed before the
  body is looked at; the inner \<open>catch\<close> (400, parse error) receives a rejection of
  \<open>delegateToMcpServer\<close>, the outer one (500) a failure to construct the session.
\<close>

definition handleMcpRequest :: "mcp_env \<Rightarrow> auth \<Rightarrow> request \<Rightarrow> effect list \<times> http_response" where
  "handleMcpRequest env a req =
     (if shouldUpgradeToSSE req then handleMcpConnection env a req
      else
        case session_throws env of
          Some error \<Rightarrow> ([], Json 500 (error_response Null (- 32603) ''Internal error'' (Some error)))
        | None \<Rightarrow>
            if falsy (body req) \<or> keys_length (body req) = 0
              then ([SessionCreated a], Json 200 (handshake (packageVersion env)))
            else
              (case delegateToMcpServer (server env) (body req) of
                 Inl parseError \<Rightarrow>
                   ([SessionCreated a, Delegated (body req)],
                    Json 400 (error_response Null (- 32700) ''Parse error'' (Some parseError)))
               | Inr response \<Rightarrow>
                   ([SessionCreated a, Delegated (body req)],
                    if response \<noteq> Null then Json 200 response else Empty 204)))"



section \<open>Text codecs of the platform\<close>

text \<open>
  \<open>encodeURIComponent\<close>, \<open>decodeURIComponent\<close> and \<open>JSON.parse\<close> over 8-bit strings.
  In \<open>decodeURIComponent\<close> and \<open>JSON.parse\<close> the result \<open>None\<close> stands for the error
  thrown (URIError, SyntaxError), and also for a text outside this model: a character
  above U+00FF, or a number with a fraction or an exponent.
\<close>

subsection \<open>\<open>encodeURIComponent\<close> and its inverse\<close>

definition uri_unreserved :: "char \<Rightarrow> bool" where
  "uri_unreserved c =
     (let n = (of_char c :: nat)
      in (65 \<le> n \<and> n \<le> 90) \<or> (97 \<le> n \<and> n \<le> 122) \<or> (48 \<le> n \<and> n \<le> 57)
         \<or> c \<in> set ''-_.!~*()'' \<or> c = CHR 0x27)"

definition hex_upper :: "nat \<Rightarrow> char" where
  "hex_upper d = (if d < 10 then char_of (48 + d) else char_of (55 + d))"

definition percent :: "nat \<Rightarrow> string" where
  "percent b = [CHR ''%'', hex_upper (b div 16), hex_upper (b mod 16)]"

definition utf8 :: "nat \<Rightarrow> nat list" where
  "utf8 n = (if n < 128 then [n] else [192 + n div 64, 128 + n mod 64])"

definition encode_char :: "char \<Rightarrow> string" where
  "encode_char c = (if uri_unreserved c then [c] else concat (map percent (utf8 (of_char c))))"

definition encodeURIComponent :: "string \<Rightarrow> string" where
  "encodeURIComponent s = concat (map encode_char s)"

definition hex_value :: "char \<Rightarrow> nat option" where
  "hex_value c =
     (let n = (of_char c :: nat)
      in if 48 \<le> n \<and> n \<le> 57 then Some (n - 48)
         else if 65 \<le> n \<and> n \<le> 70 then Some (n - 55)
         else if 97 \<le> n \<and> n \<le> 102 then Some (n - 87)
         else None)"

definition hex_byte :: "char \<Rightarrow> char \<Rightarrow> nat option" where
  "hex_byte a b =
     (case hex_value a of
        None \<Rightarrow> None
      | Some x \<Rightarrow> (case hex_value b of None \<Rightarrow> None | Some y \<Rightarrow> Some (16 * x + y)))"

text \<open>
  \<open>decodeURIComponent\<close> is not called by the source: it is what the query parser of
  the receiving side applies to a percent-encoded parameter such as \<open>state\<close>. A
  two-byte UTF-8 sequence for U+0080 to U+00FF is read back; any other sequence that
  is not plain ASCII gives \<open>None\<close>.
\<close>

definition prepend :: "char \<Rightarrow> string option \<Rightarrow> string option" where
  "prepend c r = map_option ((#) c) r"

fun decodeURIComponent :: "string \<Rightarrow> string option" where
  "decodeURIComponent [] = Some []"
| "decodeURIComponent (c # cs) =
     (if c \<noteq> CHR ''%'' then prepend c (decodeURIComponent cs)
      else
        case cs of
          a # b # rest \<Rightarrow>
            (case hex_byte a b of
               None \<Rightarrow> None
             | Some lead \<Rightarrow>
                 if lead < 128 then prepend (char_of lead) (decodeURIComponent rest)
                 else if lead = 194 \<or> lead = 195 then
                   (case rest of
                      p # a' # b' # rest' \<Rightarrow>
                        (if p \<noteq> CHR ''%'' then None
                         else case hex_byte a' b' of
                                None \<Rightarrow> None
                              | Some cont \<Rightarrow>
                                  if 128 \<le> cont \<and> cont < 192
                                    then prepend (char_of ((lead - 192) * 64 + (cont - 128)))
                                           (decodeURIComponent rest')
                                  else None)
                    | _ \<Rightarrow> None)
                 else None)
        | _ \<Rightarrow> None)"

subsection \<open>\<open>JSON.parse\<close>\<close>

text \<open>
  A recursive-descent reader of the JSON grammar. One unit of fuel is spent per nested
  value and per member of a container, each of which takes at least one character;
  \<open>JSON_parse\<close> supplies one more than the length of the text. A repeated key keeps
  its first position and takes the last value.
\<close>

fun skip_ws :: "string \<Rightarrow> string" where
  "skip_ws [] = []"
| "skip_ws (c # cs) =
     (if c = CHR 0x20 \<or> c = CHR 0x09 \<or> c = CHR 0x0A \<or> c = CHR 0x0D then skip_ws cs else c # cs)"

definition unescape :: "char \<Rightarrow> char option" where
  "unescape e =
     (if e = CHR 0x22 then Some (CHR 0x22)
      else if e = CHR 0x5C then Some (CHR 0x5C)
      else if e = CHR ''/'' then Some (CHR ''/'')
      else if e = CHR ''b'' then Some (CHR 0x08)
      else if e = CHR ''f'' then Some (CHR 0x0C)
      else if e = CHR ''n'' then Some (CHR 0x0A)
      else if e = CHR ''r'' then Some (CHR 0x0D)
      else if e = CHR ''t'' then Some (CHR 0x09)
      else None)"

definition hex4 :: "char \<Rightarrow> char \<Rightarrow> char \<Rightarrow> char \<Rightarrow> nat option" where
  "hex4 a b c d =
     (case hex_byte a b of
        None \<Rightarrow> None
      | Some hi \<Rightarrow> (case hex_byte c d of None \<Rightarrow> None | Some lo \<Rightarrow> Some (256 * hi + lo)))"

definition cons_char :: "char \<Rightarrow> (string \<times> string) option \<Rightarrow> (string \<times> string) option" where
  "cons_char c r = map_option (\<lambda>(s, rest). (c # s, rest)) r"

fun parse_chars :: "string \<Rightarrow> (string \<times> string) option" where
  "parse_chars [] = None"
| "parse_chars (c # cs) =
     (if c = CHR 0x22 then Some ([], cs)
      else if c = CHR 0x5C then
        (case cs of
           [] \<Rightarrow> None
         | e # r \<Rightarrow>
             if e = CHR ''u'' then
               (case r of
                  h1 # h2 # h3 # h4 # r' \<Rightarrow>
                    (case hex4 h1 h2 h3 h4 of
                       None \<Rightarrow> None
                     | Some n \<Rightarrow> if n < 256 then cons_char (char_of n) (parse_chars r') else None)
                | _ \<Rightarrow> None)
             else
               (case unescape e of
                  None \<Rightarrow> None
                | Some x \<Rightarrow> cons_char x (parse_chars r)))
      else if (of_char c :: nat) < 32 then None
      else cons_char c (parse_chars cs))"

definition is_digit :: "char \<Rightarrow> bool" where
  "is_digit c = (48 \<le> (of_char c :: nat) \<and> (of_char c :: nat) \<le> 57)"

definition digits_value :: "string \<Rightarrow> nat" where
  "digits_value ds = foldl (\<lambda>acc d. 10 * acc + (of_char d - 48)) 0 ds"

definition parse_number :: "string \<Rightarrow> (jsval \<times> string) option" where
  "parse_number cs =
     (let negative = (cs \<noteq> [] \<and> hd cs = CHR ''-'');
          body = (if negative then tl cs else cs);
          ds = takeWhile is_digit body;
          rest = dropWhile is_digit body
      in if ds = [] \<or> (length ds > 1 \<and> hd ds = CHR ''0'') then None
         else if rest \<noteq> [] \<and> (hd rest = CHR ''.'' \<or> hd rest = CHR ''e'' \<or> hd rest = CHR ''E'') then None
         else Some (Num (if negative then - int (digits_value ds) else int (digits_value ds)), rest))"

fun parse_value :: "nat \<Rightarrow> string \<Rightarrow> (jsval \<times> string) option"
  and parse_elements :: "nat \<Rightarrow> string \<Rightarrow> jsval list \<Rightarrow> (jsval \<times> string) option"
  and parse_members :: "nat \<Rightarrow> string \<Rightarrow> (string \<times> jsval) list \<Rightarrow> (jsval \<times> string) option" where
  "parse_value 0 cs = None"
| "parse_value (Suc n) cs =
     (case skip_ws cs of
        [] \<Rightarrow> None
      | c # r \<Rightarrow>
          if c = CHR ''{'' then
            (case skip_ws r of
               [] \<Rightarrow> None
             | d # r' \<Rightarrow> if d = CHR ''}'' then Some (Obj [], r') else parse_members n r [])
          else if c = CHR ''['' then
            (case skip_ws r of
               [] \<Rightarrow> None
             | d # r' \<Rightarrow> if d = CHR '']'' then Some (Arr [], r') else parse_elements n r [])
          else if c = CHR 0x22 then map_option (\<lambda>(s, rest). (Str s, rest)) (parse_chars r)
          else if prefix ''true'' (c # r) then Some (Bool True, drop 4 (c # r))
          else if prefix ''false'' (c # r) then Some (Bool False, drop 5 (c # r))
          else if prefix ''null'' (c # r) then Some (Null, drop 4 (c # r))
          else parse_number (c # r))"
| "parse_elements 0 cs acc = None"
| "parse_elements (Suc n) cs acc =
     (case parse_value n cs of
        None \<Rightarrow> None
      | Some (v, r) \<Rightarrow>
          (case skip_ws r of
             [] \<Rightarrow> None
           | d # r' \<Rightarrow>
               if d = CHR '','' then parse_elements n r' (acc @ [v])
               else if d = CHR '']'' then Some (Arr (acc @ [v]), r')
               else None))"
| "parse_members 0 cs acc = None"
| "parse_members (Suc n) cs acc =
     (case skip_ws cs of
        [] \<Rightarrow> None
      | q # r \<Rightarrow>
          if q \<noteq> CHR 0x22 then None
          else
            (case parse_chars r of
               None \<Rightarrow> None
             | Some (k, r1) \<Rightarrow>
                 (case skip_ws r1 of
                    [] \<Rightarrow> None
                  | colon # r2 \<Rightarrow>
                      if colon \<noteq> CHR '':'' then None
                      else
                        (case parse_value n r2 of
                           None \<Rightarrow> None
                         | Some (v, r3) \<Rightarrow>
                             (case skip_ws r3 of
                                [] \<Rightarrow> None
                              | d # r4 \<Rightarrow>
                                  if d = CHR '','' then parse_members n r4 (AList.update k v acc)
                                  else if d = CHR ''}'' then Some (Obj (AList.update k v acc), r4)
                                  else None)))))"

definition JSON_parse :: "string \<Rightarrow> jsval option" where
  "JSON_parse s =
     (case parse_value (Suc (length s)) s of
        None \<Rightarrow> None
      | Some (v, rest) \<Rightarrow> if skip_ws rest = [] then Some v else None)"


section \<open>The authorization-code flow (\<open>auth.ts\<close>)\<close>

record AzureTokenResponse =
  access_token :: string
  token_type :: string
  expires_in :: int
  scope :: string

text \<open>
  The reply of the token endpoint as \<open>exchangeCodeForToken\<close> reads it: \<open>response.ok\<close>,
  \<open>response.status\<close>, \<open>response.text()\<close>, and \<open>response.json()\<close>, which rejects
  (\<open>Inl\<close>) when the body is not JSON.
\<close>

record token_reply =
  reply_ok :: bool
  reply_status :: nat
  reply_text :: string
  reply_json :: "jsval + AzureTokenResponse"

text \<open>The payload \<open>handleOAuthCallback\<close> signs.\<close>

record session_claims =
  sc_sub :: string
  sc_accessToken :: string
  sc_organization :: jsval
  sc_iat :: int
  sc_exp :: int

text \<open>
  The collaborators of the flow: \<open>fetch\<close> on the token endpoint with the given form
  fields (\<open>Inl\<close> when it rejects), \<open>jwt.sign\<close> (\<open>Inl\<close> when it throws), and
  \<open>Date.now()\<close> in milliseconds.
\<close>

record oauth_env =
  fetch_token :: "(string \<times> string) list \<Rightarrow> jsval + token_reply"
  jwt_sign :: "session_claims \<Rightarrow> string \<Rightarrow> jsval + string"
  now :: int

definition scopes :: string where
  "scopes = join_with '' ''
     [ ''https://app.vssps.visualstudio.com/user_profile'',
       ''https://dev.azure.com/user_profile'',
       ''vso.work_write'',
       ''vso.code_write'',
       ''vso.build_execute'',
       ''vso.release_execute'' ]"

text \<open>\<open>`${req.protocol}://${req.get('host')}/auth/callback`\<close>\<close>

definition callback_uri :: "request \<Rightarrow> string" where
  "callback_uri req =
     protocol req @ ''://'' @ (case host req of None \<Rightarrow> ''undefined'' | Some h \<Rightarrow> h)
       @ ''/auth/callback''"

text \<open>
  The authorization URL is one concatenation in the source; it is cut here before
  \<open>&state=\<close>. \<open>state_payload\<close> is \<open>JSON.stringify({ organization })\<close>.
\<close>

definition authorize_request :: "string \<Rightarrow> string \<Rightarrow> string" where
  "authorize_request clientId redirectUri =
     ''https://app.vssps.visualstudio.com/oauth2/authorize''
       @ ''?client_id='' @ clientId
       @ ''&response_type=code''
       @ ''&redirect_uri='' @ encodeURIComponent redirectUri
       @ ''&scope='' @ encodeURIComponent scopes"

definition state_payload :: "string \<Rightarrow> string" where
  "state_payload org =
     (case JSON_stringify (Obj [(''organization'', Str org)]) of
        None \<Rightarrow> ''undefined''
      | Some s \<Rightarrow> s)"

definition initiateOAuthFlow :: "AuthConfig \<Rightarrow> request \<Rightarrow> http_response" where
  "initiateOAuthFlow config req =
     (if \<not> oauthEnabled config \<or> absent (azureClientId config)
        then Json 501 (error_body ''OAuth is not configured'')
      else
        let org = query_organization req;
            redirectUri = the (js_or (query_redirect_uri req) (Some (callback_uri req)))
        in if absent org
             then Json 400 (error_body ''organization parameter is required'')
           else
             Json 200 (Obj [(''authUrl'',
               Str (authorize_request (the (azureClientId config)) redirectUri
                      @ ''&state='' @ encodeURIComponent (state_payload (the org))))]))"

definition exchangeCodeForToken ::
  "oauth_env \<Rightarrow> string \<Rightarrow> string \<Rightarrow> string \<Rightarrow> string \<Rightarrow> jsval + AzureTokenResponse" where
  "exchangeCodeForToken env code redirectUri clientId clientSecret =
     (case fetch_token env
             [ (''client_assertion_type'',
                  ''urn:ietf:params:oauth:client-assertion-type:client-secret-basic''),
               (''client_assertion'', clientId @ '':'' @ clientSecret),
               (''grant_type'', ''authorization_code''),
               (''code'', code),
               (''redirect_uri'', redirectUri) ] of
        Inl e \<Rightarrow> Inl e
      | Inr response \<Rightarrow>
          if \<not> reply_ok response
            then Inl (Err (''Token exchange failed: '' @ digits_of (reply_status response)
                            @ '' '' @ reply_text response))
          else reply_json response)"

text \<open>
  The \<open>try\<close> block of \<open>handleOAuthCallback\<close>: \<open>Inl\<close> is the value thrown into its
  \<open>catch\<close>.
\<close>

definition callback_try :: "AuthConfig \<Rightarrow> oauth_env \<Rightarrow> request \<Rightarrow> jsval + http_response" where
  "callback_try config env req =
     (case (if absent (query_state req) then Some (Obj []) else JSON_parse (the (query_state req))) of
        None \<Rightarrow> Inl (Err ''SyntaxError'')
      | Some stateData \<Rightarrow>
     (case member stateData ''organization'' of
        Inl e \<Rightarrow> Inl e
      | Inr org \<Rightarrow>
     (case exchangeCodeForToken env (the (query_code req)) (callback_uri req)
             (the (azureClientId config)) (the (azureClientSecret config)) of
        Inl e \<Rightarrow> Inl e
      | Inr tokenResponse \<Rightarrow>
          if absent (jwtSecret config) then Inl (Err ''JWT secret not configured'')
          else
            (case jwt_sign env
                    \<lparr> sc_sub = takeWhile (\<lambda>c. c \<noteq> CHR ''.'') (access_token tokenResponse),
                      sc_accessToken = access_token tokenResponse,
                      sc_organization = org,
                      sc_iat = now env div 1000,
                      sc_exp = now env div 1000 + expires_in tokenResponse \<rparr>
                    (the (jwtSecret config)) of
               Inl e \<Rightarrow> Inl e
             | Inr jwtToken \<Rightarrow>
                 Inr (Json 200 (Obj [ (''token'', Str jwtToken),
                                      (''expires_in'', Num (expires_in tokenResponse)),
                                      (''organization'', org) ]))))))"

definition handleOAuthCallback :: "AuthConfig \<Rightarrow> oauth_env \<Rightarrow> request \<Rightarrow> http_response" where
  "handleOAuthCallback config env req =
     (if \<not> oauthEnabled config \<or> absent (azureClientSecret config) \<or> absent (azureClientId config)
        then Json 501 (error_body ''OAuth is not configured'')
      else if absent (query_code req)
        then Json 400 (error_body ''Authorization code not provided'')
      else
        case callback_try config env req of
          Inl error \<Rightarrow> Json 400 (error_body ''Failed to exchange authorization code'')
        | Inr response \<Rightarrow> response)"

section \<open>Observations and sample collaborators\<close>


text \<open>What a sequence of transport calls leaves in the two buffers.\<close>

fun messages_sent :: "transport_call list \<Rightarrow> jsval list" where
  "messages_sent [] = []"
| "messages_sent (Send msg # cs) = msg # messages_sent cs"
| "messages_sent (OnError m # cs) = messages_sent cs"

fun errors_reported :: "transport_call list \<Rightarrow> string list" where
  "errors_reported [] = []"
| "errors_reported (Send msg # cs) = errors_reported cs"
| "errors_reported (OnError m # cs) = m # errors_reported cs"

text \<open>
  A configuration with both schemes enabled, a verifier that accepts two tokens under
  the configured secret (one of them without the \<open>accessToken\<close> claim), a downstream
  API that accepts one credential for one organization, a server that stays silent and
  one that answers a request and then reports an error.
\<close>

definition sample_config :: AuthConfig where
  "sample_config =
     \<lparr> patEnabled = True, oauthEnabled = True, jwtSecret = Some ''s3cret'',
       azureClientId = Some ''c0ffee'', azureClientSecret = Some ''hush'',
       azureTenantId = None, allowedOrigins = Some [''*''] \<rparr>"

definition sample_verify :: "string \<Rightarrow> string \<Rightarrow> jwt_claims option" where
  "sample_verify tok secret =
     (if secret = ''s3cret'' \<and> tok = ''full.jwt''
        then Some \<lparr> claim_organization = Some ''contoso'', claim_accessToken = Some ''ado-token'',
                    claim_sub = Some ''user-1'' \<rparr>
      else if secret = ''s3cret'' \<and> tok = ''bare.jwt''
        then Some \<lparr> claim_organization = Some ''contoso'', claim_accessToken = None,
                    claim_sub = None \<rparr>
      else None)"

definition sample_getProjects :: "string \<Rightarrow> string \<Rightarrow> bool" where
  "sample_getProjects orgUrl tok = (orgUrl = ''https://dev.azure.com/contoso'' \<and> tok = ''pat-123'')"

definition sample_auth_env :: auth_env where
  "sample_auth_env = \<lparr> jwt_verify = sample_verify, getProjects = sample_getProjects \<rparr>"

definition sample_request :: request where
  "sample_request =
     \<lparr> http_method = ''POST'', authorization = Some ''Bearer pat-123'',
       x_ado_organization = Some ''contoso'', upgrade = None, accept = None,
       body = Obj [], protocol = ''https'', host = Some ''mcp.example'',
       query_organization = None, query_redirect_uri = None, query_code = None,
       query_state = None \<rparr>"

definition sample_identity :: auth where
  "sample_identity =
     \<lparr> auth_type = PAT, token = ''pat-123'', organization = ''contoso'', userId = None,
       claims = None \<rparr>"

definition no_throw :: "jsval \<Rightarrow> jsval option" where
  "no_throw message = None"

definition silent :: "jsval option \<Rightarrow> nat \<Rightarrow> transport_call list" where
  "silent delivered deadline = []"

definition silent_server :: McpServer where
  "silent_server =
     \<lparr> connect_throws = None, installs_onmessage = True, onmessage_throws = no_throw,
       calls_before = silent \<rparr>"



definition sample_mcp_env :: mcp_env where
  "sample_mcp_env = \<lparr> session_throws = None, server = silent_server, packageVersion = ''1.0.0'' \<rparr>"

definition sample_fetch_token :: "(string \<times> string) list \<Rightarrow> jsval + token_reply" where
  "sample_fetch_token form =
     (if map_of form ''code'' = Some ''code-42''
        then Inr \<lparr> reply_ok = True, reply_status = 200, reply_text = [],
                   reply_json = Inr \<lparr> access_token = ''ado.token'', token_type = ''bearer'',
                                       expires_in = 3600, scope = ''vso.work_write'' \<rparr> \<rparr>
      else Inr \<lparr> reply_ok = False, reply_status = 400, reply_text = ''invalid_grant'',
                 reply_json = Inl (Err ''SyntaxError'') \<rparr>)"

definition sample_sign :: "session_claims \<Rightarrow> string \<Rightarrow> jsval + string" where
  "sample_sign payload secret = Inr (''jwt:'' @ sc_sub payload @ '':'' @ secret)"

definition sample_oauth_env :: oauth_env where
  "sample_oauth_env = \<lparr> fetch_token = sample_fetch_token, jwt_sign = sample_sign, now = 1700000000123 \<rparr>"

definition sample_initiate :: request where
  "sample_initiate = sample_request\<lparr>http_method := ''GET'', authorization := None,
     x_ado_organization := None, query_organization := Some ''contoso''\<rparr>"

definition sample_callback :: request where
  "sample_callback = sample_request\<lparr>http_method := ''GET'', authorization := None,
     x_ado_organization := None, query_code := Some ''code-42'',
     query_state := Some (state_payload ''contoso'')\<rparr>"

definition write_succeeds :: "string \<Rightarrow> jsval option" where
  "write_succeeds chunk = None"

lemmas sample_defs = sample_config_def sample_auth_env_def sample_verify_def sample_getProjects_def
  sample_request_def sample_identity_def sample_mcp_env_def silent_server_def silent_def no_throw_def

lemmas auth_defs = authenticate_def authenticateWithPAT_def authenticateWithOAuth_def validatePAT_def
  bad_header_def absent_def js_or_def error_body_def Let_def

section \<open>Properties of the stream transport\<close>

lemma close_closed: "t_closed (close t)"
  by (simp add: close_def)

lemma close_twice: "close (close t) = close t"
  by (simp add: close_def)

lemma close_funpow: "(close ^^ Suc n) t = close t"
  by (induction n) (simp_all add: close_twice)

text \<open>
  C9. Closing is idempotent: once the transport has been closed, any number of further
  closes leaves it as it is. Counted from an open transport, the response is ended
  exactly once and the session's close callback, when installed, fires exactly once,
  however often \<open>close\<close> is called.
\<close>

theorem close_idempotent:
  "(close ^^ Suc n) t = close t
   \<and> t_closed (close t)
   \<and> (\<not> t_closed t \<longrightarrow>
        count_list (effects ((close ^^ Suc n) t)) ResponseEnd
          = Suc (count_list (effects t) ResponseEnd)
        \<and> (onclose t \<longrightarrow>
             count_list (effects ((close ^^ Suc n) t)) OnCloseFired
               = Suc (count_list (effects t) OnCloseFired)))"
  unfolding close_funpow by (simp add: close_def)

theorem close_idempotent_witness:
  "(close ^^ Suc 2) ((new_HttpTransport ''k3x'')\<lparr>onclose := True\<rparr>)
     = close ((new_HttpTransport ''k3x'')\<lparr>onclose := True\<rparr>)
   \<and> \<not> t_closed ((new_HttpTransport ''k3x'')\<lparr>onclose := True\<rparr>)
   \<and> onclose ((new_HttpTransport ''k3x'')\<lparr>onclose := True\<rparr>)
   \<and> count_list (effects ((close ^^ Suc 2) ((new_HttpTransport ''k3x'')\<lparr>onclose := True\<rparr>))) ResponseEnd = 1
   \<and> count_list (effects ((close ^^ Suc 2) ((new_HttpTransport ''k3x'')\<lparr>onclose := True\<rparr>))) OnCloseFired = 1"
  using close_idempotent [of 2 "(new_HttpTransport ''k3x'')\<lparr>onclose := True\<rparr>"]
  by (simp add: new_HttpTransport_def close_def)

text \<open>
  C10. After the transport has been closed, every \<open>send\<close> fails with the error
  \<open>Transport is closed\<close> and leaves the transport, and so the response, untouched:
  nothing is written, for every message.
\<close>

theorem send_after_close:
  "send write_throws (close t) message = (Inl (Err ''Transport is closed''), close t)
   \<and> (t_closed t \<longrightarrow> send write_throws t message = (Inl (Err ''Transport is closed''), t))"
  by (simp add: send_def close_closed)

theorem send_after_close_witness:
  "t_closed (close (new_HttpTransport ''k3x''))
   \<and> send write_succeeds (close (new_HttpTransport ''k3x'')) (Obj [(''jsonrpc'', Str ''2.0''), (''id'', Num 1), (''result'', Obj [])])
       = (Inl (Err ''Transport is closed''), close (new_HttpTransport ''k3x''))
   \<and> effects (snd (send write_succeeds (close (new_HttpTransport ''k3x'')) (Obj [(''jsonrpc'', Str ''2.0''), (''id'', Num 1), (''result'', Obj [])])))
       = effects (close (new_HttpTransport ''k3x''))"
  using send_after_close [of write_succeeds "close (new_HttpTransport ''k3x'')"
      "Obj [(''jsonrpc'', Str ''2.0''), (''id'', Num 1), (''result'', Obj [])]"]
  by (simp add: close_closed write_succeeds_def)

section \<open>Properties of the authentication gateway\<close>









text \<open>
  C6. Under the credential-token scheme, a request without the \<open>x-ado-organization\<close>
  header (absent or empty) makes no remote validation call, whatever else it carries;
  when the scheme is enabled and a bearer credential is presented, the answer is
  400 \<open>Missing x-ado-organization header\<close>.
\<close>

theorem pat_missing_organization:
  "absent (x_ado_organization req) \<longrightarrow>
     fst (authenticateWithPAT config env req) = []
     \<and> (patEnabled config \<and> (\<exists>h. authorization req = Some h \<and> prefix ''Bearer '' h) \<longrightarrow>
          authenticateWithPAT config env req
            = ([], Responded (Json 400 (error_body ''Missing x-ado-organization header''))))"
  by (auto simp: authenticateWithPAT_def bad_header_def Let_def)

theorem pat_missing_organization_witness:
  "absent (x_ado_organization (sample_request\<lparr>x_ado_organization := None\<rparr>))
   \<and> patEnabled sample_config
   \<and> authenticateWithPAT sample_config sample_auth_env (sample_request\<lparr>x_ado_organization := None\<rparr>)
       = ([], Responded (Json 400 (error_body ''Missing x-ado-organization header'')))"
  using pat_missing_organization [of "sample_request\<lparr>x_ado_organization := None\<rparr>"
      sample_config sample_auth_env]
  by (simp add: absent_def sample_config_def sample_request_def)

text \<open>
  C5, as the code has it. For a presented bearer token: when the federated scheme is
  enabled and a secret is configured, the signature is verified first; if verification
  succeeds the federated scheme handles the request; if it throws, the request falls
  through to the credential-token scheme when that scheme is enabled, and is
  rejected with 401 \<open>No valid authentication method found\<close> when it is not. When
  the federated scheme is not enabled or has no secret, nothing is verified and the
  request goes to the credential-token scheme, if enabled.
\<close>

theorem scheme_selection:
  assumes "authorization req = Some h" and "prefix ''Bearer '' h"
  shows "(oauthEnabled config \<and> jwtSecret config = Some secret \<and> secret \<noteq> [] \<longrightarrow>
            (jwt_verify env (drop 7 h) secret \<noteq> None \<longrightarrow>
               authenticate config env req
                 = (JwtVerify (drop 7 h) secret # fst (authenticateWithOAuth config env req),
                    snd (authenticateWithOAuth config env req)))
            \<and> (jwt_verify env (drop 7 h) secret = None \<and> patEnabled config \<longrightarrow>
               authenticate config env req
                 = (JwtVerify (drop 7 h) secret # fst (authenticateWithPAT config env req),
                    snd (authenticateWithPAT config env req)))
            \<and> (jwt_verify env (drop 7 h) secret = None \<and> \<not> patEnabled config \<longrightarrow>
               authenticate config env req
                 = ([JwtVerify (drop 7 h) secret],
                    Responded (Json 401 (error_body ''No valid authentication method found'')))))
         \<and> (\<not> (oauthEnabled config \<and> \<not> absent (jwtSecret config)) \<longrightarrow>
              authenticate config env req
                = (if patEnabled config then authenticateWithPAT config env req
                   else ([], Responded (Json 401 (error_body ''No valid authentication method found'')))))"
  using assms
  by (auto simp: authenticate_def bad_header_def absent_def Let_def split: prod.splits)

theorem scheme_selection_witness:
  "authenticate sample_config sample_auth_env (sample_request\<lparr>authorization := Some ''Bearer forged.jwt''\<rparr>)
     = ([JwtVerify ''forged.jwt'' ''s3cret'',
         RemoteValidation ''https://dev.azure.com/contoso'' ''forged.jwt''],
        Responded (Json 401 (error_body ''Invalid Personal Access Token'')))
   \<and> authenticate sample_config sample_auth_env (sample_request\<lparr>authorization := Some ''Bearer full.jwt''\<rparr>)
     = ([JwtVerify ''full.jwt'' ''s3cret'', JwtVerify ''full.jwt'' ''s3cret''],
        Next \<lparr> auth_type = OAuth, token = ''ado-token'', organization = ''contoso'',
               userId = Some ''user-1'',
               claims = Some \<lparr> claim_organization = Some ''contoso'',
                               claim_accessToken = Some ''ado-token'',
                               claim_sub = Some ''user-1'' \<rparr> \<rparr>)"
proof -
  have "authenticate sample_config sample_auth_env (sample_request\<lparr>authorization := Some ''Bearer forged.jwt''\<rparr>)
     = ([JwtVerify ''forged.jwt'' ''s3cret'',
         RemoteValidation ''https://dev.azure.com/contoso'' ''forged.jwt''],
        Responded (Json 401 (error_body ''Invalid Personal Access Token'')))"
    using scheme_selection [of "sample_request\<lparr>authorization := Some ''Bearer forged.jwt''\<rparr>"
        "''Bearer forged.jwt''" sample_config "''s3cret''" sample_auth_env]
    by (simp add: sample_defs authenticateWithPAT_def validatePAT_def bad_header_def absent_def)
  moreover
  have "authenticate sample_config sample_auth_env (sample_request\<lparr>authorization := Some ''Bearer full.jwt''\<rparr>)
     = ([JwtVerify ''full.jwt'' ''s3cret'', JwtVerify ''full.jwt'' ''s3cret''],
        Next \<lparr> auth_type = OAuth, token = ''ado-token'', organization = ''contoso'',
               userId = Some ''user-1'',
               claims = Some \<lparr> claim_organization = Some ''contoso'',
                               claim_accessToken = Some ''ado-token'',
                               claim_sub = Some ''user-1'' \<rparr> \<rparr>)"
    using scheme_selection [of "sample_request\<lparr>authorization := Some ''Bearer full.jwt''\<rparr>"
        "''Bearer full.jwt''" sample_config "''s3cret''" sample_auth_env]
    by (simp add: sample_defs authenticateWithOAuth_def bad_header_def absent_def js_or_def)
  ultimately show ?thesis by blast
qed

text \<open>
  C5 as stated fails where the credential-token scheme is disabled: a token that fails
  verification is rejected outright, and no credential validation is attempted.
\<close>

theorem rejected_outright_counterexample:
  "authenticate (sample_config\<lparr>patEnabled := False\<rparr>) sample_auth_env
       (sample_request\<lparr>authorization := Some ''Bearer forged.jwt''\<rparr>)
     = ([JwtVerify ''forged.jwt'' ''s3cret''],
        Responded (Json 401 (error_body ''No valid authentication method found'')))"
  by (simp add: sample_defs auth_defs)







section \<open>Properties of single-shot delegation\<close>

lemma fold_deliver:
  "fold deliver calls (rs, es) = (rs @ messages_sent calls, es @ map Err (errors_reported calls))"
  by (induction calls arbitrary: rs es rule: messages_sent.induct) simp_all

lemma timeout_startsWith:
  assumes "getTimeoutForMethod method = Inr timeout"
  shows "opt_startsWith method p = Inr (\<exists>s. method = Str s \<and> prefix p s)"
  using assms by (cases "method") (simp_all add: getTimeoutForMethod_def type_error_def)

lemma delegate_try_resolves:
  assumes "connect_throws srv = None"
    and "installs_onmessage srv \<longrightarrow> onmessage_throws srv message = None"
    and "getTimeoutForMethod method = Inr timeout"
    and "calls = calls_before srv (if installs_onmessage srv then Some message else None) timeout"
  shows "delegate_try srv message method ident = Inr
           (case errors_reported calls of
              m # _ \<Rightarrow> error_response ident (- 32603) ''Server transport error'' (Some (Str m))
            | [] \<Rightarrow>
                (case messages_sent calls of
                   msg # _ \<Rightarrow> msg
                 | [] \<Rightarrow>
                     if opt_startsWith method ''notifications/'' = Inr True then Null
                     else error_response ident (- 32603)
                            (''Server timeout: no response for '' @ to_string method) None))"
proof -
  have sw: "opt_startsWith method ''notifications/''
              = Inr (\<exists>s. method = Str s \<and> prefix ''notifications/'' s)"
    by (rule timeout_startsWith [OF assms(3)])
  have thrown: "(if installs_onmessage srv then onmessage_throws srv message else None) = None"
    using assms(2) by simp
  have buffers: "fold deliver calls ([], []) = (messages_sent calls, map Err (errors_reported calls))"
    by (simp add: fold_deliver)
  have "delegate_try srv message method ident =
          (case map Err (errors_reported calls) of
             error # _ \<Rightarrow>
               (case member error ''message'' of
                  Inl e \<Rightarrow> Inl e
                | Inr d \<Rightarrow> Inr (error_response ident (- 32603) ''Server transport error'' (Some d)))
           | [] \<Rightarrow>
               (case messages_sent calls of
                  msg # _ \<Rightarrow> Inr msg
                | [] \<Rightarrow>
                    (case opt_startsWith method ''notifications/'' of
                       Inl e \<Rightarrow> Inl e
                     | Inr True \<Rightarrow> Inr Null
                     | Inr False \<Rightarrow>
                         Inr (error_response ident (- 32603)
                                (''Server timeout: no response for '' @ to_string method) None))))"
    unfolding delegate_try_def
    by (simp only: assms(1) thrown assms(3) assms(4) [symmetric] buffers
        option.case sum.case Let_def prod.case)
  also have "\<dots> = Inr
           (case errors_reported calls of
              m # _ \<Rightarrow> error_response ident (- 32603) ''Server transport error'' (Some (Str m))
            | [] \<Rightarrow>
                (case messages_sent calls of
                   msg # _ \<Rightarrow> msg
                 | [] \<Rightarrow>
                     if opt_startsWith method ''notifications/'' = Inr True then Null
                     else error_response ident (- 32603)
                            (''Server timeout: no response for '' @ to_string method) None))"
    by (auto simp: sw split: list.splits bool.splits)
  finally show ?thesis .
qed

lemma delegate_resolves:
  assumes "member message ''method'' = Inr method" and "member message ''id'' = Inr ident"
    and "connect_throws srv = None"
    and "installs_onmessage srv \<longrightarrow> onmessage_throws srv message = None"
    and "getTimeoutForMethod method = Inr timeout"
    and "calls = calls_before srv (if installs_onmessage srv then Some message else None) timeout"
  shows "delegateToMcpServer srv message = Inr
           (case errors_reported calls of
              m # _ \<Rightarrow> error_response ident (- 32603) ''Server transport error'' (Some (Str m))
            | [] \<Rightarrow>
                (case messages_sent calls of
                   msg # _ \<Rightarrow> msg
                 | [] \<Rightarrow>
                     if opt_startsWith method ''notifications/'' = Inr True then Null
                     else error_response ident (- 32603)
                            (''Server timeout: no response for '' @ to_string method) None))"
  by (simp only: delegateToMcpServer_def assms(1,2) sum.case
      delegate_try_resolves [OF assms(3,4,5,6)])




lemma notification_timeout:
  assumes "prefix ''notifications/'' m"
  shows "getTimeoutForMethod (Str m) = Inr 1000"
proof -
  from assms obtain r where "m = ''notifications/'' @ r" by (auto simp: prefix_def)
  then show ?thesis by (simp add: getTimeoutForMethod_def)
qed

text \<open>
  C4, as the code has it. For a single-shot input whose method starts with
  \<open>notifications/\<close>, when the server neither throws nor emits anything before the
  deadline of 1000 ms, the adapter resolves with the no-response marker \<open>null\<close> and
  the endpoint answers 204 with an empty body.
\<close>

theorem notification_no_content:
  assumes "http_method req = ''POST''" and "upgrade req \<noteq> Some ''sse''"
    and "session_throws env = None"
    and "member (body req) ''method'' = Inr (Str m)" and "prefix ''notifications/'' m"
    and "connect_throws (server env) = None"
    and "installs_onmessage (server env) \<longrightarrow> onmessage_throws (server env) (body req) = None"
    and "calls_before (server env)
           (if installs_onmessage (server env) then Some (body req) else None) 1000 = []"
  shows "delegateToMcpServer (server env) (body req) = Inr Null
         \<and> handleMcpRequest env a req = ([SessionCreated a, Delegated (body req)], Empty 204)"
proof -
  from assms(4) obtain ps where ps: "body req = Obj ps" "map_of ps ''method'' = Some (Str m)"
    by (cases "body req") (auto split: option.splits if_splits)
  then have ne: "\<not> falsy (body req)" "keys_length (body req) \<noteq> 0"
    by auto
  from ps obtain ident where ident: "member (body req) ''id'' = Inr ident"
    by simp
  have d: "delegateToMcpServer (server env) (body req) = Inr Null"
    using delegate_resolves [OF assms(4) ident assms(6) assms(7) notification_timeout [OF assms(5)] refl]
    by (simp add: assms(8) assms(5))
  show ?thesis
    using d ne assms(1,2,3) by (simp add: handleMcpRequest_def shouldUpgradeToSSE_def)
qed

theorem notification_no_content_witness:
  "handleMcpRequest sample_mcp_env sample_identity
     (sample_request\<lparr>body := Obj [(''jsonrpc'', Str ''2.0''), (''method'', Str ''notifications/initialized'')]\<rparr>)
   = ([SessionCreated sample_identity,
       Delegated (Obj [(''jsonrpc'', Str ''2.0''), (''method'', Str ''notifications/initialized'')])],
      Empty 204)"
  using notification_no_content [of
      "sample_request\<lparr>body := Obj [(''jsonrpc'', Str ''2.0''), (''method'', Str ''notifications/initialized'')]\<rparr>"
      sample_mcp_env "''notifications/initialized''" sample_identity]
  by (simp add: sample_request_def sample_mcp_env_def silent_server_def silent_def no_throw_def)

text \<open>
  C4 as stated fails for a message that carries no \<open>id\<close> and whose method does not
  start with \<open>notifications/\<close>: the endpoint answers 200 with a timeout error.
\<close>

theorem unprefixed_notification_counterexample:
  "member (Obj [(''jsonrpc'', Str ''2.0''), (''method'', Str ''progress'')]) ''id'' = Inr Undefined
   \<and> handleMcpRequest sample_mcp_env sample_identity
        (sample_request\<lparr>body := Obj [(''jsonrpc'', Str ''2.0''), (''method'', Str ''progress'')]\<rparr>)
      = ([SessionCreated sample_identity,
          Delegated (Obj [(''jsonrpc'', Str ''2.0''), (''method'', Str ''progress'')])],
         Json 200 (error_response Undefined (- 32603) ''Server timeout: no response for progress'' None))"
  by (simp add: handleMcpRequest_def shouldUpgradeToSSE_def delegateToMcpServer_def delegate_try_def
      getTimeoutForMethod_def error_response_def sample_defs)



section \<open>Properties of the authorization-code flow\<close>

lemma of_char_char_of_small: "n < 256 \<Longrightarrow> (of_char (char_of (n::nat)) :: nat) = n"
  by simp

lemma hex_value_hex_upper: "d < 16 \<Longrightarrow> hex_value (hex_upper d) = Some d"
  by (simp add: hex_value_def hex_upper_def Let_def)

lemma hex_value_hex_lower: "d < 16 \<Longrightarrow> hex_value (hex_lower d) = Some d"
  by (simp add: hex_value_def hex_lower_def Let_def)

lemma hex_byte_upper: "b < 256 \<Longrightarrow> hex_byte (hex_upper (b div 16)) (hex_upper (b mod 16)) = Some b"
  by (simp add: hex_byte_def hex_value_hex_upper)

lemma unreserved_not_percent: "uri_unreserved c \<Longrightarrow> c \<noteq> CHR ''%''"
  by (auto simp: uri_unreserved_def Let_def)

lemma decode_percent_ascii:
  assumes "b < 128"
  shows "decodeURIComponent (percent b @ rest) = prepend (char_of b) (decodeURIComponent rest)"
  using assms by (simp add: percent_def hex_byte_upper)

lemma decode_encode_char:
  "decodeURIComponent (encode_char c @ rest) = prepend c (decodeURIComponent rest)"
proof (cases "uri_unreserved c")
  case True
  then show ?thesis by (simp add: encode_char_def unreserved_not_percent)
next
  case False
  define n where "n = (of_char c :: nat)"
  have n256: "n < 256" and cn: "char_of n = c" by (simp_all add: n_def)
  show ?thesis
  proof (cases "n < 128")
    case True
    with False show ?thesis
      using decode_percent_ascii [of n rest] by (simp add: encode_char_def utf8_def n_def)
  next
    case big: False
    let ?lead = "192 + n div 64" and ?cont = "128 + n mod 64"
    have lead: "?lead = 194 \<or> ?lead = 195" "?lead < 256" "\<not> ?lead < 128"
      using big n256 by auto
    have cont: "128 \<le> ?cont" "?cont < 192" "?cont < 256" by auto
    have recomposed: "(?lead - 192) * 64 + (?cont - 128) = n" by simp
    have "decodeURIComponent (percent ?lead @ percent ?cont @ rest)
            = prepend (char_of ((?lead - 192) * 64 + (?cont - 128))) (decodeURIComponent rest)"
      using lead cont
      by (simp add: percent_def hex_byte_upper del: div_mult_self1 div_mult_self2 div_mult_self3 div_mult_self4)
    with False big show ?thesis
      by (simp add: encode_char_def utf8_def n_def [symmetric] recomposed cn)
  qed
qed

lemma decode_encode_append:
  "decodeURIComponent (encodeURIComponent s @ rest) = map_option ((@) s) (decodeURIComponent rest)"
proof (induction s)
  case Nil
  show ?case by (simp add: encodeURIComponent_def option.map_ident)
next
  case (Cons c s)
  have "decodeURIComponent (encodeURIComponent (c # s) @ rest)
          = decodeURIComponent (encode_char c @ (encodeURIComponent s @ rest))"
    by (simp add: encodeURIComponent_def)
  also have "\<dots> = prepend c (decodeURIComponent (encodeURIComponent s @ rest))"
    by (rule decode_encode_char)
  also have "\<dots> = map_option ((@) (c # s)) (decodeURIComponent rest)"
    by (cases "decodeURIComponent rest") (simp_all add: Cons.IH prepend_def)
  finally show ?case .
qed

lemma decode_encode: "decodeURIComponent (encodeURIComponent s) = Some s"
  using decode_encode_append [of s "[]"] by simp


lemma hex_byte_lower: "b < 256 \<Longrightarrow> hex_byte (hex_lower (b div 16)) (hex_lower (b mod 16)) = Some b"
  by (simp add: hex_byte_def hex_value_hex_lower)

lemma hex_byte_zero: "hex_byte CHR ''0'' CHR ''0'' = Some 0"
  by (simp add: hex_byte_def hex_value_def)

lemma hex4_lower:
  "n < 32 \<Longrightarrow> hex4 CHR ''0'' CHR ''0'' (hex_lower (n div 16)) (hex_lower (n mod 16)) = Some n"
  by (simp add: hex4_def hex_byte_lower hex_byte_zero)

lemma parse_quote_char:
  "parse_chars (quote_char c @ rest) = cons_char c (parse_chars rest)"
proof -
  define n where "n = (of_char c :: nat)"
  have cn: "char_of n = c" and n256: "n < 256" by (simp_all add: n_def)
  consider (special) "c \<in> {CHR 0x22, CHR 0x5C, CHR 0x08, CHR 0x0C, CHR 0x0A, CHR 0x0D, CHR 0x09}"
    | (control) "c \<notin> {CHR 0x22, CHR 0x5C, CHR 0x08, CHR 0x0C, CHR 0x0A, CHR 0x0D, CHR 0x09}" "n < 32"
    | (plain) "c \<notin> {CHR 0x22, CHR 0x5C, CHR 0x08, CHR 0x0C, CHR 0x0A, CHR 0x0D, CHR 0x09}" "\<not> n < 32"
    by blast
  then show ?thesis
  proof cases
    case special
    then show ?thesis by (auto simp: quote_char_def unescape_def)
  next
    case control
    then show ?thesis
      using hex4_lower [of n] by (simp add: quote_char_def n_def [symmetric] cn)
  next
    case plain
    then show ?thesis by (simp add: quote_char_def n_def [symmetric])
  qed
qed

lemma parse_quoted:
  "parse_chars (concat (map quote_char s) @ CHR 0x22 # rest) = Some (s, rest)"
proof (induction s)
  case Nil
  show ?case by simp
next
  case (Cons c s)
  have "parse_chars (concat (map quote_char (c # s)) @ CHR 0x22 # rest)
          = parse_chars (quote_char c @ (concat (map quote_char s) @ CHR 0x22 # rest))"
    by simp
  also have "\<dots> = cons_char c (parse_chars (concat (map quote_char s) @ CHR 0x22 # rest))"
    by (rule parse_quote_char)
  also have "\<dots> = Some (c # s, rest)"
    by (simp add: Cons.IH cons_char_def)
  finally show ?case .
qed

lemma stringify_state:
  "JSON_stringify (Obj [(''organization'', Str org)])
     = Some (''{'' @ quote ''organization'' @ '':'' @ quote org @ ''}'')"
  by simp

lemma quote_organization:
  "quote ''organization'' = CHR 0x22 # ''organization'' @ [CHR 0x22]"
  by (simp add: quote_def quote_char_def)

lemma parse_state_text:
  "parse_value (Suc (Suc (Suc n))) (''{'' @ quote ''organization'' @ '':'' @ quote org @ ''}'')
     = Some (Obj [(''organization'', Str org)], [])"
proof -
  have key: "parse_chars (''organization'' @ CHR 0x22 # '':'' @ quote org @ ''}'')
               = Some (''organization'', '':'' @ quote org @ ''}'')"
    using parse_quoted [of "''organization''" "'':'' @ quote org @ ''}''"]
    by (simp add: quote_char_def)
  have val: "parse_value (Suc n) (quote org @ ''}'') = Some (Str org, ''}'')"
    using parse_quoted [of org "''}''"] by (simp add: quote_def)
  show ?thesis
    using key val by (simp add: quote_organization)
qed

lemma parse_stringify_state:
  "JSON_parse (''{'' @ quote ''organization'' @ '':'' @ quote org @ ''}'')
     = Some (Obj [(''organization'', Str org)])"
proof -
  have "\<exists>n. length (''{'' @ quote ''organization'' @ '':'' @ quote org @ ''}'') = Suc (Suc n)"
    by (simp add: quote_def)
  then obtain n where
    "length (''{'' @ quote ''organization'' @ '':'' @ quote org @ ''}'') = Suc (Suc n)" ..
  then show ?thesis
    unfolding JSON_parse_def by (simp only: parse_state_text) simp
qed


lemma state_payload_text:
  "state_payload org = ''{'' @ quote ''organization'' @ '':'' @ quote org @ ''}''"
  by (simp add: state_payload_def)

lemma encode_char_plain: "CHR ''&'' \<notin> set (encode_char c) \<and> CHR ''#'' \<notin> set (encode_char c)"
proof (cases "uri_unreserved c")
  case True
  then have "c \<noteq> CHR ''&''" "c \<noteq> CHR ''#''"
    by (auto simp: uri_unreserved_def Let_def)
  with True show ?thesis by (simp add: encode_char_def)
next
  case False
  have hex: "hex_upper d \<noteq> CHR ''&'' \<and> hex_upper d \<noteq> CHR ''#''" if "d < 16" for d
  proof -
    have "hex_value (hex_upper d) = Some d" using that by (rule hex_value_hex_upper)
    moreover have "hex_value CHR ''&'' = None" "hex_value CHR ''#'' = None"
      by (simp_all add: hex_value_def)
    ultimately show ?thesis by auto
  qed
  have "CHR ''&'' \<notin> set (percent b) \<and> CHR ''#'' \<notin> set (percent b)" if "b < 256" for b
  proof -
    from that have "b div 16 < 16" "b mod 16 < 16" by auto
    then show ?thesis
      using hex [of "b div 16"] hex [of "b mod 16"] by (auto simp: percent_def)
  qed
  moreover have "\<forall>b \<in> set (utf8 (of_char c)). b < 256"
  proof -
    define n where "n = (of_char c :: nat)"
    have "n < 256" by (simp add: n_def)
    then have "n div 64 < 4" by arith
    then have "\<forall>b \<in> set (utf8 n). b < 256" by (auto simp: utf8_def)
    then show ?thesis by (simp add: n_def)
  qed
  ultimately show ?thesis using False by (auto simp: encode_char_def)
qed

lemma encode_plain: "CHR ''&'' \<notin> set (encodeURIComponent s) \<and> CHR ''#'' \<notin> set (encodeURIComponent s)"
  using encode_char_plain by (auto simp: encodeURIComponent_def)

text \<open>
  C7. For every organization \<open>org\<close> (a non-empty string, as \<open>initiate\<close> requires) and a
  configured federated scheme, \<open>initiate\<close> answers with an authorization URL that ends
  in \<open>&state=\<close> followed by the encoded state; the encoded state contains neither \<open>&\<close>
  nor \<open>#\<close>, decodes to the state text, and the state text parses to exactly
  \<open>{organization: org}\<close>. Fed into \<open>complete\<close> with a code the token endpoint accepts,
  that state gives a final response whose \<open>organization\<close> is \<open>org\<close>.
\<close>

theorem oauth_state_round_trip:
  assumes "oauthEnabled config" and "azureClientId config = Some clientId" and "clientId \<noteq> []"
    and "query_organization req = Some org" and "org \<noteq> []"
  shows "initiateOAuthFlow config req
           = Json 200 (Obj [(''authUrl'',
               Str (authorize_request clientId
                      (the (js_or (query_redirect_uri req) (Some (callback_uri req))))
                    @ ''&state='' @ encodeURIComponent (state_payload org)))])
         \<and> CHR ''&'' \<notin> set (encodeURIComponent (state_payload org))
         \<and> CHR ''#'' \<notin> set (encodeURIComponent (state_payload org))
         \<and> decodeURIComponent (encodeURIComponent (state_payload org)) = Some (state_payload org)
         \<and> JSON_parse (state_payload org) = Some (Obj [(''organization'', Str org)])
         \<and> (azureClientSecret config = Some clientSecret \<and> clientSecret \<noteq> []
              \<and> jwtSecret config = Some secret \<and> secret \<noteq> []
              \<and> query_code cb = Some code \<and> code \<noteq> []
              \<and> query_state cb = Some (state_payload org)
              \<and> exchangeCodeForToken env code (callback_uri cb) clientId clientSecret
                    = Inr tokenResponse
              \<and> jwt_sign env
                    \<lparr> sc_sub = takeWhile (\<lambda>c. c \<noteq> CHR ''.'') (access_token tokenResponse),
                      sc_accessToken = access_token tokenResponse,
                      sc_organization = Str org,
                      sc_iat = now env div 1000,
                      sc_exp = now env div 1000 + expires_in tokenResponse \<rparr> secret
                    = Inr jwtToken
              \<longrightarrow> handleOAuthCallback config env cb
                    = Json 200 (Obj [ (''token'', Str jwtToken),
                                      (''expires_in'', Num (expires_in tokenResponse)),
                                      (''organization'', Str org) ]))"
proof (intro conjI impI)
  show "initiateOAuthFlow config req
           = Json 200 (Obj [(''authUrl'',
               Str (authorize_request clientId
                      (the (js_or (query_redirect_uri req) (Some (callback_uri req))))
                    @ ''&state='' @ encodeURIComponent (state_payload org)))])"
    using assms by (simp add: initiateOAuthFlow_def absent_def Let_def)
  show "CHR ''&'' \<notin> set (encodeURIComponent (state_payload org))"
    and "CHR ''#'' \<notin> set (encodeURIComponent (state_payload org))"
    using encode_plain by blast+
  show "decodeURIComponent (encodeURIComponent (state_payload org)) = Some (state_payload org)"
    by (rule decode_encode)
  show parsed: "JSON_parse (state_payload org) = Some (Obj [(''organization'', Str org)])"
    unfolding state_payload_text by (rule parse_stringify_state)
  assume cb: "azureClientSecret config = Some clientSecret \<and> clientSecret \<noteq> []
              \<and> jwtSecret config = Some secret \<and> secret \<noteq> []
              \<and> query_code cb = Some code \<and> code \<noteq> []
              \<and> query_state cb = Some (state_payload org)
              \<and> exchangeCodeForToken env code (callback_uri cb) clientId clientSecret
                    = Inr tokenResponse
              \<and> jwt_sign env
                    \<lparr> sc_sub = takeWhile (\<lambda>c. c \<noteq> CHR ''.'') (access_token tokenResponse),
                      sc_accessToken = access_token tokenResponse,
                      sc_organization = Str org,
                      sc_iat = now env div 1000,
                      sc_exp = now env div 1000 + expires_in tokenResponse \<rparr> secret
                    = Inr jwtToken"
  have nonempty: "state_payload org \<noteq> []"
    by (simp add: state_payload_text)
  have "callback_try config env cb
          = Inr (Json 200 (Obj [ (''token'', Str jwtToken),
                                 (''expires_in'', Num (expires_in tokenResponse)),
                                 (''organization'', Str org) ]))"
    using cb assms(2) nonempty parsed by (simp add: callback_try_def absent_def)
  then show "handleOAuthCallback config env cb
               = Json 200 (Obj [ (''token'', Str jwtToken),
                                 (''expires_in'', Num (expires_in tokenResponse)),
                                 (''organization'', Str org) ])"
    using cb assms(1,2,3) by (simp add: handleOAuthCallback_def absent_def)
qed


theorem oauth_state_round_trip_witness:
  "initiateOAuthFlow sample_config sample_initiate
     = Json 200 (Obj [(''authUrl'',
         Str ''https://app.vssps.visualstudio.com/oauth2/authorize?client_id=c0ffee&response_type=code&redirect_uri=https%3A%2F%2Fmcp.example%2Fauth%2Fcallback&scope=https%3A%2F%2Fapp.vssps.visualstudio.com%2Fuser_profile%20https%3A%2F%2Fdev.azure.com%2Fuser_profile%20vso.work_write%20vso.code_write%20vso.build_execute%20vso.release_execute&state=%7B%22organization%22%3A%22contoso%22%7D'')])
   \<and> encodeURIComponent (state_payload ''contoso'') = ''%7B%22organization%22%3A%22contoso%22%7D''
   \<and> decodeURIComponent ''%7B%22organization%22%3A%22contoso%22%7D'' = Some (state_payload ''contoso'')
   \<and> JSON_parse (state_payload ''contoso'') = Some (Obj [(''organization'', Str ''contoso'')])
   \<and> handleOAuthCallback sample_config sample_oauth_env sample_callback
       = Json 200 (Obj [(''token'', Str ''jwt:ado:s3cret''), (''expires_in'', Num 3600),
                        (''organization'', Str ''contoso'')])"
proof -
  have enc: "encodeURIComponent (state_payload ''contoso'') = ''%7B%22organization%22%3A%22contoso%22%7D''"
    by code_simp
  have red: "encodeURIComponent ''https://mcp.example/auth/callback'' = ''https%3A%2F%2Fmcp.example%2Fauth%2Fcallback''"
    by code_simp
  have sc: "encodeURIComponent scopes = ''https%3A%2F%2Fapp.vssps.visualstudio.com%2Fuser_profile%20https%3A%2F%2Fdev.azure.com%2Fuser_profile%20vso.work_write%20vso.code_write%20vso.build_execute%20vso.release_execute''"
    by code_simp
  have ex: "exchangeCodeForToken sample_oauth_env ''code-42'' (callback_uri sample_callback) ''c0ffee'' ''hush''
              = Inr \<lparr> access_token = ''ado.token'', token_type = ''bearer'', expires_in = 3600,
                      scope = ''vso.work_write'' \<rparr>"
    by (simp add: exchangeCodeForToken_def sample_oauth_env_def sample_fetch_token_def)
  note rt = oauth_state_round_trip [of sample_config "''c0ffee''" sample_initiate "''contoso''"
      "''hush''" "''s3cret''" sample_callback "''code-42''" sample_oauth_env
      "\<lparr> access_token = ''ado.token'', token_type = ''bearer'', expires_in = 3600,
         scope = ''vso.work_write'' \<rparr>" "''jwt:ado:s3cret''"]
  show ?thesis
    using rt ex
    by (simp add: enc red sc sample_config_def sample_initiate_def sample_callback_def
        sample_request_def sample_oauth_env_def sample_sign_def authorize_request_def
        callback_uri_def js_or_def absent_def)
qed

end
